theory Spec2Isabelle
  imports Main
begin

section \<open>The Crossref PID provider (invenio\_pidstore/providers/crossref.py)\<close>

text \<open>
  The provider bridges a local persistent identifier (\<open>self.pid\<close>) and a remote client
  (\<open>self.api\<close>). Every call the provider makes on one of its collaborators is an effect:
  it is recorded, in order, in a trace, next to the state of the local record and the
  state of the remote client. An exception is a value: each operation returns
  \<open>Inl e\<close> when the Python method raises \<open>e\<close> and \<open>Inr True\<close> when it returns \<open>True\<close>,
  together with the state it leaves behind.
\<close>

subsection \<open>The local record\<close>

text \<open>
  Modelled from the spec: the enum \<open>PIDStatus\<close> of \<open>invenio_pidstore.models\<close> is imported
  by the provider and is not part of the source at hand. Section 3 of the
  specification gives its values: NEW, RESERVED, REGISTERED, DELETED.
\<close>

datatype PIDStatus = NEW | RESERVED | REGISTERED | DELETED

text \<open>
  Modelled from the spec: the class \<open>PersistentIdentifier\<close> of \<open>invenio_pidstore.models\<close>
  (the object behind \<open>self.pid\<close>) is not part of the source at hand. Sections 3 and 6 of
  the specification give it a value, a status and the methods register-locally,
  delete-locally, is-new, is-deleted and sync-status(new\_status); the specification
  names no condition under which a local method fails, so they are total here.
\<close>

record PersistentIdentifier =
  pid_value :: string
  status :: PIDStatus

text \<open>Modelled from the spec: \<open>pid.is_new()\<close>, the query "status NEW".\<close>

definition is_new :: "PersistentIdentifier \<Rightarrow> bool" where
  "is_new p = (status p = NEW)"

text \<open>Modelled from the spec: \<open>pid.is_deleted()\<close>, the query "currently marked deleted".\<close>

definition is_deleted :: "PersistentIdentifier \<Rightarrow> bool" where
  "is_deleted p = (status p = DELETED)"

text \<open>
  Modelled from the spec: \<open>pid.register()\<close>, "mark the identifier as registered
  locally".
\<close>

definition pid_register :: "PersistentIdentifier \<Rightarrow> PersistentIdentifier" where
  "pid_register p = p\<lparr>status := REGISTERED\<rparr>"

text \<open>
  Modelled from the spec: \<open>pid.delete()\<close>, the local deletion; DELETED is reachable
  from any prior state.
\<close>

definition pid_delete :: "PersistentIdentifier \<Rightarrow> PersistentIdentifier" where
  "pid_delete p = p\<lparr>status := DELETED\<rparr>"

text \<open>
  Modelled from the spec: \<open>pid.sync_status(status)\<close>, the single synchronization
  mutator through which the status of the local record is written.
\<close>

definition pid_sync_status :: "PIDStatus \<Rightarrow> PersistentIdentifier \<Rightarrow> PersistentIdentifier" where
  "pid_sync_status s p = p\<lparr>status := s\<rparr>"

subsection \<open>The remote client\<close>

text \<open>
  The exceptions the provider names (imported from \<open>commonmeta\<close>). \<open>CrossrefError\<close> stands
  for a client error that is none of the three distinguished conditions,
  \<open>OtherException\<close> for an exception that is neither a \<open>CrossrefError\<close> nor an \<open>HttpError\<close>.
\<close>

datatype exn =
    CrossrefError
  | CrossrefGoneError
  | CrossrefNoContentError
  | CrossrefNotFoundError
  | HttpError
  | OtherException

text \<open>
  The five methods of the client the provider calls. The client is external: each method
  is a parameter, a transition of the client's state \<open>'r\<close> that either returns
  (\<open>None\<close>: the provider discards every returned value) or raises (\<open>Some e\<close>).
\<close>

record ('r, 'd) client =
  metadata_post :: "'d \<Rightarrow> 'r \<Rightarrow> exn option \<times> 'r"
  doi_post :: "string \<Rightarrow> string \<Rightarrow> 'r \<Rightarrow> exn option \<times> 'r"
  doi_get :: "string \<Rightarrow> 'r \<Rightarrow> exn option \<times> 'r"
  metadata_get :: "string \<Rightarrow> 'r \<Rightarrow> exn option \<times> 'r"
  metadata_delete :: "string \<Rightarrow> 'r \<Rightarrow> exn option \<times> 'r"

subsection \<open>Effects\<close>

datatype 'd remote_call =
    MetadataPost 'd
  | DoiPost string string
  | DoiGet string
  | MetadataGet string
  | MetadataDelete string

datatype local_call = PidRegister | PidDelete | PidSyncStatus PIDStatus

datatype 'd event =
    Remote "'d remote_call" "exn option"
  | Local local_call
  | LogInfo string
  | LogException string

record ('r, 'd) world =
  pid :: PersistentIdentifier
  api :: 'r
  trace :: "'d event list"

type_synonym ('r, 'd) outcome = "(exn + bool) \<times> ('r, 'd) world"

definition api_call ::
  "'d remote_call \<Rightarrow> ('r \<Rightarrow> exn option \<times> 'r) \<Rightarrow> ('r, 'd) world \<Rightarrow> exn option \<times> ('r, 'd) world" where
  "api_call c f w =
     (case f (api w) of (r, s) \<Rightarrow> (r, w\<lparr>api := s, trace := trace w @ [Remote c r]\<rparr>))"

definition pid_call ::
  "local_call \<Rightarrow> (PersistentIdentifier \<Rightarrow> PersistentIdentifier) \<Rightarrow> ('r, 'd) world \<Rightarrow> ('r, 'd) world" where
  "pid_call c f w = w\<lparr>pid := f (pid w), trace := trace w @ [Local c]\<rparr>"

definition logger_info :: "string \<Rightarrow> ('r, 'd) world \<Rightarrow> ('r, 'd) world" where
  "logger_info msg w = w\<lparr>trace := trace w @ [LogInfo msg]\<rparr>"

definition logger_exception :: "string \<Rightarrow> ('r, 'd) world \<Rightarrow> ('r, 'd) world" where
  "logger_exception msg w = w\<lparr>trace := trace w @ [LogException msg]\<rparr>"

text \<open>
  The clause \<open>except (CrossrefError, HttpError)\<close>: which exceptions it matches. The three
  distinguished conditions are remote-client errors (sections 6 and 7 of the
  specification) and are taken to be subclasses of \<open>CrossrefError\<close>. The clause only
  decides whether the failure is logged: its body ends in a bare \<open>raise\<close>, and an
  exception it does not match propagates as well.
\<close>

definition except_CrossrefError_HttpError :: "exn \<Rightarrow> bool" where
  "except_CrossrefError_HttpError e = (e \<noteq> OtherException)"

definition log_and_raise :: "string \<Rightarrow> exn \<Rightarrow> ('r, 'd) world \<Rightarrow> ('r, 'd) outcome" where
  "log_and_raise msg e w =
     (Inl e, if except_CrossrefError_HttpError e then logger_exception msg w else w)"

subsection \<open>The provider's operations\<close>

definition register :: "('r, 'd) client \<Rightarrow> string \<Rightarrow> 'd \<Rightarrow> ('r, 'd) world \<Rightarrow> ('r, 'd) outcome" where
  "register cl url doc w =
     (let w1 = pid_call PidRegister pid_register w in
      case api_call (MetadataPost doc) (metadata_post cl doc) w1 of
        (Some e, w2) \<Rightarrow> log_and_raise ''Failed to register in Crossref'' e w2
      | (None, w2) \<Rightarrow>
          (case api_call (DoiPost (pid_value (pid w2)) url)
                  (doi_post cl (pid_value (pid w2)) url) w2 of
             (Some e, w3) \<Rightarrow> log_and_raise ''Failed to register in Crossref'' e w3
           | (None, w3) \<Rightarrow> (Inr True, logger_info ''Successfully registered in Crossref'' w3)))"

definition update :: "('r, 'd) client \<Rightarrow> string \<Rightarrow> 'd \<Rightarrow> ('r, 'd) world \<Rightarrow> ('r, 'd) outcome" where
  "update cl url doc w =
     (let w0 = (if is_deleted (pid w) then logger_info ''Reactivate in Crossref'' w else w) in
      case api_call (MetadataPost doc) (metadata_post cl doc) w0 of
        (Some e, w1) \<Rightarrow> log_and_raise ''Failed to update in Crossref'' e w1
      | (None, w1) \<Rightarrow>
          (case api_call (DoiPost (pid_value (pid w1)) url)
                  (doi_post cl (pid_value (pid w1)) url) w1 of
             (Some e, w2) \<Rightarrow> log_and_raise ''Failed to update in Crossref'' e w2
           | (None, w2) \<Rightarrow>
               (let w3 = (if is_deleted (pid w2)
                          then pid_call (PidSyncStatus REGISTERED) (pid_sync_status REGISTERED) w2
                          else w2)
                in (Inr True, logger_info ''Successfully updated in Crossref'' w3))))"

definition delete :: "('r, 'd) client \<Rightarrow> ('r, 'd) world \<Rightarrow> ('r, 'd) outcome" where
  "delete cl w =
     (if is_new (pid w) then
        (let w1 = pid_call PidDelete pid_delete w
         in (Inr True, logger_info ''Successfully deleted in Crossref'' w1))
      else
        (let w1 = pid_call PidDelete pid_delete w in
         case api_call (MetadataDelete (pid_value (pid w1)))
                (metadata_delete cl (pid_value (pid w1))) w1 of
           (Some e, w2) \<Rightarrow> log_and_raise ''Failed to delete in Crossref'' e w2
         | (None, w2) \<Rightarrow> (Inr True, logger_info ''Successfully deleted in Crossref'' w2)))"

text \<open>
  The two inner \<open>try\<close> blocks of \<open>sync_status\<close>: what the local variable \<open>status\<close> holds
  after the probe (\<open>None\<close> is Python's \<open>None\<close>), or the exception that leaves the block.
\<close>

fun doi_get_status :: "exn option \<Rightarrow> exn + PIDStatus option" where
  "doi_get_status None = Inr (Some REGISTERED)"
| "doi_get_status (Some CrossrefGoneError) = Inr (Some DELETED)"
| "doi_get_status (Some CrossrefNoContentError) = Inr (Some REGISTERED)"
| "doi_get_status (Some CrossrefNotFoundError) = Inr None"
| "doi_get_status (Some e) = Inl e"

fun metadata_get_status :: "exn option \<Rightarrow> exn + PIDStatus option" where
  "metadata_get_status None = Inr (Some RESERVED)"
| "metadata_get_status (Some CrossrefGoneError) = Inr (Some DELETED)"
| "metadata_get_status (Some CrossrefNoContentError) = Inr (Some REGISTERED)"
| "metadata_get_status (Some CrossrefNotFoundError) = Inr None"
| "metadata_get_status (Some e) = Inl e"

text \<open>The end of \<open>sync_status\<close>, from \<open>if status is None\<close> on.\<close>

definition write_status :: "PIDStatus option \<Rightarrow> ('r, 'd) world \<Rightarrow> ('r, 'd) outcome" where
  "write_status st w =
     (let s = (case st of None \<Rightarrow> NEW | Some s' \<Rightarrow> s');
          w' = pid_call (PidSyncStatus s) (pid_sync_status s) w
      in (Inr True, logger_info ''Successfully synced status from Crossref'' w'))"

definition sync_status :: "('r, 'd) client \<Rightarrow> ('r, 'd) world \<Rightarrow> ('r, 'd) outcome" where
  "sync_status cl w =
     (case api_call (DoiGet (pid_value (pid w))) (doi_get cl (pid_value (pid w))) w of
        (r1, w1) \<Rightarrow>
          (case doi_get_status r1 of
             Inl e \<Rightarrow> log_and_raise ''Failed to sync status from Crossref'' e w1
           | Inr (Some s) \<Rightarrow> write_status (Some s) w1
           | Inr None \<Rightarrow>
               (case api_call (MetadataGet (pid_value (pid w1)))
                       (metadata_get cl (pid_value (pid w1))) w1 of
                  (r2, w2) \<Rightarrow>
                    (case metadata_get_status r2 of
                       Inl e \<Rightarrow> log_and_raise ''Failed to sync status from Crossref'' e w2
                     | Inr st \<Rightarrow> write_status st w2))))"

subsection \<open>Reading a trace\<close>

text \<open>The remote calls of a trace with their outcomes, the local calls, in order.\<close>

fun remote_log :: "'d event list \<Rightarrow> ('d remote_call \<times> exn option) list" where
  "remote_log [] = []"
| "remote_log (Remote c r # es) = (c, r) # remote_log es"
| "remote_log (Local c # es) = remote_log es"
| "remote_log (LogInfo m # es) = remote_log es"
| "remote_log (LogException m # es) = remote_log es"

definition remote_calls :: "'d event list \<Rightarrow> 'd remote_call list" where
  "remote_calls es = map fst (remote_log es)"

fun local_calls :: "'d event list \<Rightarrow> local_call list" where
  "local_calls [] = []"
| "local_calls (Local c # es) = c # local_calls es"
| "local_calls (Remote c r # es) = local_calls es"
| "local_calls (LogInfo m # es) = local_calls es"
| "local_calls (LogException m # es) = local_calls es"

text \<open>What an operation appended to the trace: the events between two worlds.\<close>

definition new_events :: "('r, 'd) world \<Rightarrow> ('r, 'd) world \<Rightarrow> 'd event list" where
  "new_events w w' = drop (length (trace w)) (trace w')"

subsection \<open>A scripted client\<close>

text \<open>
  A client for concrete runs, as a mock in a test: its state is the list of the outcomes
  still to give; every call takes the next one, and returns normally once the script is
  used up.
\<close>

definition scripted_step :: "exn option list \<Rightarrow> exn option \<times> exn option list" where
  "scripted_step s = (case s of [] \<Rightarrow> (None, []) | r # rs \<Rightarrow> (r, rs))"

definition scripted :: "(exn option list, string) client" where
  "scripted =
     \<lparr>metadata_post = (\<lambda>doc. scripted_step),
      doi_post = (\<lambda>v url. scripted_step),
      doi_get = (\<lambda>v. scripted_step),
      metadata_get = (\<lambda>v. scripted_step),
      metadata_delete = (\<lambda>v. scripted_step)\<rparr>"

definition world0 :: "PIDStatus \<Rightarrow> exn option list \<Rightarrow> (exn option list, string) world" where
  "world0 st script =
     \<lparr>pid = \<lparr>pid_value = ''10.5555/12345678'', status = st\<rparr>, api = script, trace = []\<rparr>"

text \<open>
  The events of a trace up to its first local call: what had happened when the local
  record was first touched.
\<close>

fun before_first_local :: "'d event list \<Rightarrow> 'd event list" where
  "before_first_local [] = []"
| "before_first_local (Local c # es) = []"
| "before_first_local (Remote c r # es) = Remote c r # before_first_local es"
| "before_first_local (LogInfo m # es) = LogInfo m # before_first_local es"
| "before_first_local (LogException m # es) = LogException m # before_first_local es"

text \<open>
  A probe answers when it returns or raises one of the three distinguished conditions:
  the outcomes \<open>sync_status\<close> reads a state from.
\<close>

definition answers :: "exn option \<Rightarrow> bool" where
  "answers r = (r = None \<or> r = Some CrossrefGoneError \<or> r = Some CrossrefNoContentError
                 \<or> r = Some CrossrefNotFoundError)"

subsection \<open>The inference table of the specification\<close>

text \<open>
  Written from the words of the specification (section 4.1, \<open>sync_status\<close>), not from
  the code: the status inferred from the outcome of the identifier-probe and of the
  metadata-probe. Success, "gone" and "no content" of the identifier-probe conclude
  REGISTERED, DELETED and REGISTERED; after "not found" the metadata-probe concludes
  RESERVED on success, DELETED on "gone", REGISTERED on "no content", and two "not found"
  default to NEW. Any other error has no entry.
\<close>

fun inference_table :: "exn option \<Rightarrow> exn option \<Rightarrow> PIDStatus option" where
  "inference_table None r2 = Some REGISTERED"
| "inference_table (Some CrossrefGoneError) r2 = Some DELETED"
| "inference_table (Some CrossrefNoContentError) r2 = Some REGISTERED"
| "inference_table (Some CrossrefNotFoundError) None = Some RESERVED"
| "inference_table (Some CrossrefNotFoundError) (Some CrossrefGoneError) = Some DELETED"
| "inference_table (Some CrossrefNotFoundError) (Some CrossrefNoContentError) = Some REGISTERED"
| "inference_table (Some CrossrefNotFoundError) (Some CrossrefNotFoundError) = Some NEW"
| "inference_table r1 r2 = None"

subsection \<open>Construction\<close>

text \<open>
  \<open>current_app.config\<close> is a dictionary of Python values; \<open>config.get(key, default)\<close>
  gives the default (\<open>None\<close> when there is none) for a missing key.
\<close>

datatype pyval = PyNone | PyStr string | PyBool bool | PyList "pyval list"

type_synonym config = "string \<rightharpoonup> pyval"

definition config_get :: "config \<Rightarrow> string \<Rightarrow> pyval \<Rightarrow> pyval" where
  "config_get cfg k d = (case cfg k of None \<Rightarrow> d | Some v \<Rightarrow> v)"

text \<open>The keyword arguments \<open>__init__\<close> passes to \<open>CrossrefXMLClient\<close>, in its order.\<close>

definition default_client_kwargs :: "config \<Rightarrow> (string \<times> pyval) list" where
  "default_client_kwargs cfg =
     [(''username'', config_get cfg ''PIDSTORE_CROSSREF_USERNAME'' PyNone),
      (''password'', config_get cfg ''PIDSTORE_CROSSREF_PASSWORD'' PyNone),
      (''prefixes'', config_get cfg ''PIDSTORE_CROSSREF_DOI_PREFIXES'' (PyList [PyStr ''10.5555''])),
      (''test_mode'', config_get cfg ''PIDSTORE_CROSSREF_TESTMODE'' (PyBool False))]"

text \<open>
  \<open>__init__(self, pid, client=None)\<close>. The constructor \<open>CrossrefXMLClient\<close> is external
  and a parameter: it turns keyword arguments into a client state. A new provider has
  made no call yet.
\<close>

definition init ::
  "((string \<times> pyval) list \<Rightarrow> 'r) \<Rightarrow> config \<Rightarrow> PersistentIdentifier \<Rightarrow> 'r option \<Rightarrow> ('r, 'd) world" where
  "init CrossrefXMLClient cfg p client =
     \<lparr>pid = p,
      api = (case client of Some c \<Rightarrow> c | None \<Rightarrow> CrossrefXMLClient (default_client_kwargs cfg)),
      trace = []\<rparr>"

text \<open>A configuration that sets every variable the docstring of \<open>__init__\<close> lists.\<close>

definition config_all :: config where
  "config_all =
     [''PIDSTORE_CROSSREF_USERNAME'' \<mapsto> PyStr ''user'',
      ''PIDSTORE_CROSSREF_PASSWORD'' \<mapsto> PyStr ''secret'',
      ''PIDSTORE_CROSSREF_DOI_PREFIXES'' \<mapsto> PyList [PyStr ''10.1234''],
      ''PIDSTORE_CROSSREF_TESTMODE'' \<mapsto> PyBool True,
      ''PIDSTORE_CROSSREF_URL'' \<mapsto> PyStr ''https://test.crossref.org'']"

section \<open>Properties\<close>

lemmas run_defs = register_def update_def delete_def sync_status_def write_status_def
  api_call_def pid_call_def logger_info_def logger_exception_def log_and_raise_def
  new_events_def remote_calls_def

lemmas pid_defs = is_new_def is_deleted_def pid_register_def pid_delete_def pid_sync_status_def

lemmas script_defs = world0_def scripted_def scripted_step_def

subsection \<open>The status inferred by \<open>sync_status\<close>\<close>

text \<open>
  C1: for every pair of probe outcomes, \<open>sync_status\<close> writes exactly the status of the
  inference table. Here \<open>r1\<close> is the outcome of the identifier-probe and \<open>r2\<close> the outcome
  the metadata-probe has after it. Where the table has an entry, the method returns
  \<open>True\<close>, calls the mutator once, with that status, and the record ends in it; where it
  has none, the mutator is not called. The status written is NEW if and only if both
  probes raise "not found".
\<close>

theorem sync_status_inference_table:
  assumes "doi_get cl (pid_value (pid w)) (api w) = (r1, s1)"
      and "metadata_get cl (pid_value (pid w)) s1 = (r2, s2)"
  shows "(\<forall>st. inference_table r1 r2 = Some st \<longrightarrow>
            fst (sync_status cl w) = Inr True \<and>
            local_calls (new_events w (snd (sync_status cl w))) = [PidSyncStatus st] \<and>
            status (pid (snd (sync_status cl w))) = st)
       \<and> (inference_table r1 r2 = None \<longrightarrow>
            local_calls (new_events w (snd (sync_status cl w))) = [])
       \<and> (local_calls (new_events w (snd (sync_status cl w))) = [PidSyncStatus NEW]
            \<longleftrightarrow> r1 = Some CrossrefNotFoundError \<and> r2 = Some CrossrefNotFoundError)"
proof (cases r1)
  case None
  with assms show ?thesis by (simp add: run_defs pid_defs)
next
  case (Some e1)
  show ?thesis
  proof (cases "e1 = CrossrefNotFoundError")
    case False
    with Some assms show ?thesis by (cases e1) (simp_all add: run_defs pid_defs)
  next
    case True
    show ?thesis
    proof (cases r2)
      case None
      with True Some assms show ?thesis by (simp add: run_defs pid_defs)
    next
      case (Some e2)
      with True \<open>r1 = Some e1\<close> assms show ?thesis
        by (cases e2) (simp_all add: run_defs pid_defs)
    qed
  qed
qed

theorem sync_status_inference_table_witness:
  "doi_get scripted (pid_value (pid (world0 NEW [Some CrossrefNotFoundError, None])))
      (api (world0 NEW [Some CrossrefNotFoundError, None]))
     = (Some CrossrefNotFoundError, [None])
   \<and> metadata_get scripted (pid_value (pid (world0 NEW [Some CrossrefNotFoundError, None])))
        [None] = (None, [])
   \<and> inference_table (Some CrossrefNotFoundError) None = Some RESERVED
   \<and> fst (sync_status scripted (world0 NEW [Some CrossrefNotFoundError, None])) = Inr True
   \<and> local_calls (new_events (world0 NEW [Some CrossrefNotFoundError, None])
        (snd (sync_status scripted (world0 NEW [Some CrossrefNotFoundError, None]))))
       = [PidSyncStatus RESERVED]
   \<and> status (pid (snd (sync_status scripted (world0 NEW [Some CrossrefNotFoundError, None]))))
       = RESERVED"
proof -
  have h1: "doi_get scripted (pid_value (pid (world0 NEW [Some CrossrefNotFoundError, None])))
      (api (world0 NEW [Some CrossrefNotFoundError, None]))
     = (Some CrossrefNotFoundError, [None])"
    by (simp add: script_defs)
  have h2: "metadata_get scripted (pid_value (pid (world0 NEW [Some CrossrefNotFoundError, None])))
        [None] = (None, [])"
    by (simp add: script_defs)
  from sync_status_inference_table [OF h1 h2] h1 h2 show ?thesis by simp
qed

subsection \<open>Probe precedence\<close>

text \<open>
  C3: when the identifier-probe is conclusive (it returns, or raises "gone" or "no
  content"), \<open>sync_status\<close> makes that one remote call and no other: the metadata-probe
  is not invoked, and the client is left in the state the identifier-probe put it in.
\<close>

theorem sync_status_probe_precedence:
  assumes "doi_get cl (pid_value (pid w)) (api w) = (r1, s1)"
      and "r1 = None \<or> r1 = Some CrossrefGoneError \<or> r1 = Some CrossrefNoContentError"
  shows "remote_log (new_events w (snd (sync_status cl w))) = [(DoiGet (pid_value (pid w)), r1)]
       \<and> (\<forall>v. MetadataGet v \<notin> set (remote_calls (new_events w (snd (sync_status cl w)))))
       \<and> api (snd (sync_status cl w)) = s1"
  using assms by (auto simp add: run_defs pid_defs)

theorem sync_status_probe_precedence_witness:
  "doi_get scripted (pid_value (pid (world0 REGISTERED [Some CrossrefGoneError, None])))
      (api (world0 REGISTERED [Some CrossrefGoneError, None]))
     = (Some CrossrefGoneError, [None])
   \<and> remote_log (new_events (world0 REGISTERED [Some CrossrefGoneError, None])
        (snd (sync_status scripted (world0 REGISTERED [Some CrossrefGoneError, None]))))
       = [(DoiGet (pid_value (pid (world0 REGISTERED [Some CrossrefGoneError, None]))),
           Some CrossrefGoneError)]
   \<and> api (snd (sync_status scripted (world0 REGISTERED [Some CrossrefGoneError, None])))
       = [None]"
proof -
  have h1: "doi_get scripted (pid_value (pid (world0 REGISTERED [Some CrossrefGoneError, None])))
      (api (world0 REGISTERED [Some CrossrefGoneError, None]))
     = (Some CrossrefGoneError, [None])"
    by (simp add: script_defs)
  have h2: "Some CrossrefGoneError = None \<or> Some CrossrefGoneError = Some CrossrefGoneError
     \<or> Some CrossrefGoneError = Some CrossrefNoContentError"
    by simp
  from sync_status_probe_precedence [OF h1 h2] h1 show ?thesis by simp
qed

subsection \<open>Reactivation by \<open>update\<close>\<close>

text \<open>
  C4: on a record marked DELETED, \<open>update\<close> ends with status REGISTERED if and only if
  the metadata-post and the identifier-mint both succeed, and it returns \<open>True\<close> in
  exactly that case. When either call raises, the same exception leaves \<open>update\<close>, no
  local call has been made and the record is as it was: still DELETED.
\<close>

theorem update_deleted:
  assumes "status (pid w) = DELETED"
      and "metadata_post cl doc (api w) = (r1, s1)"
      and "doi_post cl (pid_value (pid w)) url s1 = (r2, s2)"
  shows "(status (pid (snd (update cl url doc w))) = REGISTERED \<longleftrightarrow> r1 = None \<and> r2 = None)
       \<and> (fst (update cl url doc w) = Inr True \<longleftrightarrow> r1 = None \<and> r2 = None)
       \<and> (\<forall>e. r1 = Some e \<or> (r1 = None \<and> r2 = Some e) \<longrightarrow>
            fst (update cl url doc w) = Inl e \<and>
            pid (snd (update cl url doc w)) = pid w \<and>
            status (pid (snd (update cl url doc w))) = DELETED \<and>
            local_calls (new_events w (snd (update cl url doc w))) = [])"
  using assms by (cases r1; cases r2) (auto simp add: run_defs pid_defs)

theorem update_deleted_witness:
  "status (pid (world0 DELETED [None, None])) = DELETED
   \<and> metadata_post scripted ''doc'' (api (world0 DELETED [None, None])) = (None, [None])
   \<and> doi_post scripted (pid_value (pid (world0 DELETED [None, None]))) ''https://example.org/1''
        [None] = (None, [])
   \<and> status (pid (snd (update scripted ''https://example.org/1'' ''doc''
        (world0 DELETED [None, None])))) = REGISTERED
   \<and> status (pid (world0 DELETED [None, Some HttpError])) = DELETED
   \<and> metadata_post scripted ''doc'' (api (world0 DELETED [None, Some HttpError]))
       = (None, [Some HttpError])
   \<and> doi_post scripted (pid_value (pid (world0 DELETED [None, Some HttpError])))
        ''https://example.org/1'' [Some HttpError] = (Some HttpError, [])
   \<and> fst (update scripted ''https://example.org/1'' ''doc'' (world0 DELETED [None, Some HttpError]))
       = Inl HttpError
   \<and> pid (snd (update scripted ''https://example.org/1'' ''doc''
        (world0 DELETED [None, Some HttpError]))) = pid (world0 DELETED [None, Some HttpError])"
proof -
  have a0: "status (pid (world0 DELETED [None, None])) = DELETED"
    by (simp add: script_defs)
  have a1: "metadata_post scripted ''doc'' (api (world0 DELETED [None, None])) = (None, [None])"
    by (simp add: script_defs)
  have a2: "doi_post scripted (pid_value (pid (world0 DELETED [None, None])))
      ''https://example.org/1'' [None] = (None, [])"
    by (simp add: script_defs)
  have b0: "status (pid (world0 DELETED [None, Some HttpError])) = DELETED"
    by (simp add: script_defs)
  have b1: "metadata_post scripted ''doc'' (api (world0 DELETED [None, Some HttpError]))
      = (None, [Some HttpError])"
    by (simp add: script_defs)
  have b2: "doi_post scripted (pid_value (pid (world0 DELETED [None, Some HttpError])))
      ''https://example.org/1'' [Some HttpError] = (Some HttpError, [])"
    by (simp add: script_defs)
  from update_deleted [OF a0 a1 a2] update_deleted [OF b0 b1 b2] a0 a1 a2 b0 b1 b2
  show ?thesis by simp
qed

subsection \<open>The remote calls of \<open>delete\<close>\<close>

text \<open>
  C5: on an identifier in status NEW, \<open>delete\<close> makes no remote call: it calls the
  local deletion, leaves the client as it was and returns \<open>True\<close>. On an identifier in
  any other status it makes exactly one remote call, the metadata-delete with the
  identifier's value, next to the one local deletion.
\<close>

theorem delete_remote_calls:
  assumes "metadata_delete cl (pid_value (pid w)) (api w) = (r, s)"
  shows "(status (pid w) = NEW \<longrightarrow>
            remote_log (new_events w (snd (delete cl w))) = [] \<and>
            api (snd (delete cl w)) = api w \<and>
            local_calls (new_events w (snd (delete cl w))) = [PidDelete] \<and>
            pid (snd (delete cl w)) = pid_delete (pid w) \<and>
            fst (delete cl w) = Inr True)
       \<and> (status (pid w) \<noteq> NEW \<longrightarrow>
            remote_log (new_events w (snd (delete cl w))) =
              [(MetadataDelete (pid_value (pid w)), r)] \<and>
            local_calls (new_events w (snd (delete cl w))) = [PidDelete] \<and>
            pid (snd (delete cl w)) = pid_delete (pid w))"
  using assms by (cases r) (auto simp add: run_defs pid_defs)

theorem delete_remote_calls_witness:
  "metadata_delete scripted (pid_value (pid (world0 NEW [None]))) (api (world0 NEW [None]))
     = (None, [])
   \<and> status (pid (world0 NEW [None])) = NEW
   \<and> remote_log (new_events (world0 NEW [None]) (snd (delete scripted (world0 NEW [None])))) = []
   \<and> api (snd (delete scripted (world0 NEW [None]))) = api (world0 NEW [None])
   \<and> metadata_delete scripted (pid_value (pid (world0 REGISTERED [None])))
        (api (world0 REGISTERED [None])) = (None, [])
   \<and> status (pid (world0 REGISTERED [None])) \<noteq> NEW
   \<and> remote_log (new_events (world0 REGISTERED [None])
        (snd (delete scripted (world0 REGISTERED [None]))))
       = [(MetadataDelete (pid_value (pid (world0 REGISTERED [None]))), None)]"
proof -
  have a1: "metadata_delete scripted (pid_value (pid (world0 NEW [None])))
      (api (world0 NEW [None])) = (None, [])"
    by (simp add: script_defs)
  have a2: "status (pid (world0 NEW [None])) = NEW"
    by (simp add: script_defs)
  have b1: "metadata_delete scripted (pid_value (pid (world0 REGISTERED [None])))
      (api (world0 REGISTERED [None])) = (None, [])"
    by (simp add: script_defs)
  have b2: "status (pid (world0 REGISTERED [None])) \<noteq> NEW"
    by (simp add: script_defs)
  from delete_remote_calls [OF a1] delete_remote_calls [OF b1] a1 a2 b1 b2
  show ?thesis by simp
qed

subsection \<open>The order of the remote calls of \<open>register\<close>\<close>

text \<open>
  C6: \<open>register\<close> issues the metadata-post first. When it raises, that call is the only
  remote call and its exception leaves \<open>register\<close>: the mint is not attempted. When it
  returns, the identifier-mint follows, with the identifier's value and the URL, and
  nothing else.
\<close>

theorem register_post_before_mint:
  assumes "metadata_post cl doc (api w) = (r1, s1)"
      and "doi_post cl (pid_value (pid w)) url s1 = (r2, s2)"
  shows "(\<forall>e. r1 = Some e \<longrightarrow>
            fst (register cl url doc w) = Inl e \<and>
            remote_log (new_events w (snd (register cl url doc w))) = [(MetadataPost doc, Some e)])
       \<and> (r1 = None \<longrightarrow>
            remote_log (new_events w (snd (register cl url doc w))) =
              [(MetadataPost doc, None), (DoiPost (pid_value (pid w)) url, r2)])"
  using assms by (cases r1; cases r2) (auto simp add: run_defs pid_defs)

theorem register_post_before_mint_witness:
  "metadata_post scripted ''doc'' (api (world0 NEW [Some HttpError])) = (Some HttpError, [])
   \<and> doi_post scripted (pid_value (pid (world0 NEW [Some HttpError]))) ''https://example.org/1'' []
       = (None, [])
   \<and> fst (register scripted ''https://example.org/1'' ''doc'' (world0 NEW [Some HttpError]))
       = Inl HttpError
   \<and> remote_log (new_events (world0 NEW [Some HttpError])
        (snd (register scripted ''https://example.org/1'' ''doc'' (world0 NEW [Some HttpError]))))
       = [(MetadataPost ''doc'', Some HttpError)]
   \<and> metadata_post scripted ''doc'' (api (world0 NEW [None, None])) = (None, [None])
   \<and> doi_post scripted (pid_value (pid (world0 NEW [None, None]))) ''https://example.org/1'' [None]
       = (None, [])
   \<and> remote_log (new_events (world0 NEW [None, None])
        (snd (register scripted ''https://example.org/1'' ''doc'' (world0 NEW [None, None]))))
       = [(MetadataPost ''doc'', None),
          (DoiPost (pid_value (pid (world0 NEW [None, None]))) ''https://example.org/1'', None)]"
proof -
  have a1: "metadata_post scripted ''doc'' (api (world0 NEW [Some HttpError]))
      = (Some HttpError, [])"
    by (simp add: script_defs)
  have a2: "doi_post scripted (pid_value (pid (world0 NEW [Some HttpError])))
      ''https://example.org/1'' [] = (None, [])"
    by (simp add: script_defs)
  have b1: "metadata_post scripted ''doc'' (api (world0 NEW [None, None])) = (None, [None])"
    by (simp add: script_defs)
  have b2: "doi_post scripted (pid_value (pid (world0 NEW [None, None])))
      ''https://example.org/1'' [None] = (None, [])"
    by (simp add: script_defs)
  from register_post_before_mint [OF a1 a2] register_post_before_mint [OF b1 b2] a1 a2 b1 b2
  show ?thesis by simp
qed

subsection \<open>Errors during the probes\<close>

text \<open>
  C7: when a probe of \<open>sync_status\<close> raises an exception \<open>e\<close> that is none of the three
  distinguished conditions (the identifier-probe, or the metadata-probe after the
  identifier-probe raised "not found"), \<open>sync_status\<close> raises \<open>e\<close>, the mutator is not
  called and the local record is unchanged.
\<close>

theorem sync_status_abort:
  assumes "doi_get cl (pid_value (pid w)) (api w) = (r1, s1)"
      and "metadata_get cl (pid_value (pid w)) s1 = (r2, s2)"
      and "e \<noteq> CrossrefGoneError"
      and "e \<noteq> CrossrefNoContentError"
      and "e \<noteq> CrossrefNotFoundError"
      and "r1 = Some e \<or> (r1 = Some CrossrefNotFoundError \<and> r2 = Some e)"
  shows "fst (sync_status cl w) = Inl e
       \<and> pid (snd (sync_status cl w)) = pid w
       \<and> local_calls (new_events w (snd (sync_status cl w))) = []"
  using assms by (cases e) (auto simp add: run_defs pid_defs)

theorem sync_status_abort_witness:
  "doi_get scripted (pid_value (pid (world0 REGISTERED [Some CrossrefNotFoundError, Some HttpError])))
      (api (world0 REGISTERED [Some CrossrefNotFoundError, Some HttpError]))
     = (Some CrossrefNotFoundError, [Some HttpError])
   \<and> metadata_get scripted
        (pid_value (pid (world0 REGISTERED [Some CrossrefNotFoundError, Some HttpError])))
        [Some HttpError] = (Some HttpError, [])
   \<and> HttpError \<noteq> CrossrefGoneError \<and> HttpError \<noteq> CrossrefNoContentError
   \<and> HttpError \<noteq> CrossrefNotFoundError
   \<and> fst (sync_status scripted (world0 REGISTERED [Some CrossrefNotFoundError, Some HttpError]))
       = Inl HttpError
   \<and> pid (snd (sync_status scripted (world0 REGISTERED [Some CrossrefNotFoundError, Some HttpError])))
       = pid (world0 REGISTERED [Some CrossrefNotFoundError, Some HttpError])
   \<and> doi_get scripted (pid_value (pid (world0 RESERVED [Some CrossrefError])))
        (api (world0 RESERVED [Some CrossrefError])) = (Some CrossrefError, [])
   \<and> fst (sync_status scripted (world0 RESERVED [Some CrossrefError])) = Inl CrossrefError
   \<and> pid (snd (sync_status scripted (world0 RESERVED [Some CrossrefError])))
       = pid (world0 RESERVED [Some CrossrefError])"
proof -
  have a1: "doi_get scripted
      (pid_value (pid (world0 REGISTERED [Some CrossrefNotFoundError, Some HttpError])))
      (api (world0 REGISTERED [Some CrossrefNotFoundError, Some HttpError]))
     = (Some CrossrefNotFoundError, [Some HttpError])"
    by (simp add: script_defs)
  have a2: "metadata_get scripted
      (pid_value (pid (world0 REGISTERED [Some CrossrefNotFoundError, Some HttpError])))
      [Some HttpError] = (Some HttpError, [])"
    by (simp add: script_defs)
  have a3: "Some CrossrefNotFoundError = Some HttpError
      \<or> (Some CrossrefNotFoundError = Some CrossrefNotFoundError \<and> Some HttpError = Some HttpError)"
    by simp
  have b1: "doi_get scripted (pid_value (pid (world0 RESERVED [Some CrossrefError])))
      (api (world0 RESERVED [Some CrossrefError])) = (Some CrossrefError, [])"
    by (simp add: script_defs)
  have b2: "metadata_get scripted (pid_value (pid (world0 RESERVED [Some CrossrefError]))) []
      = (None, [])"
    by (simp add: script_defs)
  have b3: "Some CrossrefError = Some CrossrefError
      \<or> (Some CrossrefError = Some CrossrefNotFoundError \<and> None = Some CrossrefError)"
    by simp
  have a: "fst (sync_status scripted (world0 REGISTERED [Some CrossrefNotFoundError, Some HttpError]))
       = Inl HttpError
     \<and> pid (snd (sync_status scripted (world0 REGISTERED [Some CrossrefNotFoundError, Some HttpError])))
       = pid (world0 REGISTERED [Some CrossrefNotFoundError, Some HttpError])"
    using sync_status_abort [OF a1 a2 _ _ _ a3] by simp
  have b: "fst (sync_status scripted (world0 RESERVED [Some CrossrefError])) = Inl CrossrefError
     \<and> pid (snd (sync_status scripted (world0 RESERVED [Some CrossrefError])))
       = pid (world0 RESERVED [Some CrossrefError])"
    using sync_status_abort [OF b1 b2 _ _ _ b3] by simp
  from a b a1 a2 b1 show ?thesis by simp
qed

subsection \<open>Local deletion comes first\<close>

text \<open>
  C9: on an identifier that is not in status NEW, \<open>delete\<close> calls the local deletion
  first and the remote metadata-delete second. When the remote call raises, its
  exception leaves \<open>delete\<close> and the record stays deleted locally: nothing rolls the
  local deletion back.
\<close>

theorem delete_local_first:
  assumes "status (pid w) \<noteq> NEW"
      and "metadata_delete cl (pid_value (pid w)) (api w) = (r, s)"
  shows "take 2 (new_events w (snd (delete cl w))) =
           [Local PidDelete, Remote (MetadataDelete (pid_value (pid w))) r]
       \<and> (\<forall>e. r = Some e \<longrightarrow>
            fst (delete cl w) = Inl e \<and>
            pid (snd (delete cl w)) = pid_delete (pid w) \<and>
            status (pid (snd (delete cl w))) = DELETED)"
  using assms by (cases r) (auto simp add: run_defs pid_defs)

theorem delete_local_first_witness:
  "status (pid (world0 REGISTERED [Some CrossrefError])) \<noteq> NEW
   \<and> metadata_delete scripted (pid_value (pid (world0 REGISTERED [Some CrossrefError])))
        (api (world0 REGISTERED [Some CrossrefError])) = (Some CrossrefError, [])
   \<and> take 2 (new_events (world0 REGISTERED [Some CrossrefError])
        (snd (delete scripted (world0 REGISTERED [Some CrossrefError]))))
       = [Local PidDelete,
          Remote (MetadataDelete (pid_value (pid (world0 REGISTERED [Some CrossrefError]))))
            (Some CrossrefError)]
   \<and> fst (delete scripted (world0 REGISTERED [Some CrossrefError])) = Inl CrossrefError
   \<and> status (pid (snd (delete scripted (world0 REGISTERED [Some CrossrefError])))) = DELETED"
proof -
  have h1: "status (pid (world0 REGISTERED [Some CrossrefError])) \<noteq> NEW"
    by (simp add: script_defs)
  have h2: "metadata_delete scripted (pid_value (pid (world0 REGISTERED [Some CrossrefError])))
      (api (world0 REGISTERED [Some CrossrefError])) = (Some CrossrefError, [])"
    by (simp add: script_defs)
  from delete_local_first [OF h1 h2] h1 h2 show ?thesis by (simp add: pid_delete_def)
qed

subsection \<open>When the local record is touched\<close>

lemma update_mutation:
  "(local_calls (new_events w (snd (update cl url doc w))) \<noteq> [] \<longrightarrow>
      remote_log (before_first_local (new_events w (snd (update cl url doc w)))) =
        [(MetadataPost doc, None), (DoiPost (pid_value (pid w)) url, None)])
   \<and> (local_calls (new_events w (snd (update cl url doc w))) = [] \<longrightarrow>
        pid (snd (update cl url doc w)) = pid w)"
proof -
  obtain r1 s1 where h1: "metadata_post cl doc (api w) = (r1, s1)"
    by (cases "metadata_post cl doc (api w)")
  obtain r2 s2 where h2: "doi_post cl (pid_value (pid w)) url s1 = (r2, s2)"
    by (cases "doi_post cl (pid_value (pid w)) url s1")
  from h1 h2 show ?thesis
    by (cases r1; cases r2; cases "status (pid w) = DELETED") (simp_all add: run_defs pid_defs)
qed

lemma sync_status_mutation:
  "(local_calls (new_events w (snd (sync_status cl w))) \<noteq> [] \<longrightarrow>
      remote_log (before_first_local (new_events w (snd (sync_status cl w)))) \<noteq> [] \<and>
      list_all (\<lambda>cr. answers (snd cr))
        (remote_log (before_first_local (new_events w (snd (sync_status cl w))))))
   \<and> (local_calls (new_events w (snd (sync_status cl w))) = [] \<longrightarrow>
        pid (snd (sync_status cl w)) = pid w)"
proof -
  obtain r1 s1 where h1: "doi_get cl (pid_value (pid w)) (api w) = (r1, s1)"
    by (cases "doi_get cl (pid_value (pid w)) (api w)")
  obtain r2 s2 where h2: "metadata_get cl (pid_value (pid w)) s1 = (r2, s2)"
    by (cases "metadata_get cl (pid_value (pid w)) s1")
  show ?thesis
  proof (cases r1)
    case None
    with h1 show ?thesis by (simp add: run_defs pid_defs answers_def)
  next
    case (Some e1)
    show ?thesis
    proof (cases "e1 = CrossrefNotFoundError")
      case False
      with Some h1 show ?thesis by (cases e1) (simp_all add: run_defs pid_defs answers_def)
    next
      case True
      show ?thesis
      proof (cases r2)
        case None
        with True Some h1 h2 show ?thesis by (simp add: run_defs pid_defs answers_def)
      next
        case (Some e2)
        with True \<open>r1 = Some e1\<close> h1 h2 show ?thesis
          by (cases e2) (simp_all add: run_defs pid_defs answers_def)
      qed
    qed
  qed
qed

lemma register_mutation:
  "before_first_local (new_events w (snd (register cl url doc w))) = []
   \<and> local_calls (new_events w (snd (register cl url doc w))) = [PidRegister]"
proof -
  obtain r1 s1 where h1: "metadata_post cl doc (api w) = (r1, s1)"
    by (cases "metadata_post cl doc (api w)")
  obtain r2 s2 where h2: "doi_post cl (pid_value (pid w)) url s1 = (r2, s2)"
    by (cases "doi_post cl (pid_value (pid w)) url s1")
  from h1 h2 show ?thesis
    by (cases r1; cases r2) (simp_all add: run_defs pid_defs)
qed

lemma delete_mutation:
  "before_first_local (new_events w (snd (delete cl w))) = []
   \<and> local_calls (new_events w (snd (delete cl w))) = [PidDelete]"
proof -
  obtain r s where h: "metadata_delete cl (pid_value (pid w)) (api w) = (r, s)"
    by (cases "metadata_delete cl (pid_value (pid w)) (api w)")
  from h show ?thesis
    by (cases r; cases "status (pid w) = NEW") (simp_all add: run_defs pid_defs)
qed

text \<open>
  C2, as stated, fails: \<open>register\<close> calls \<open>pid.register()\<close> before any remote call. On a
  NEW identifier whose metadata-post raises \<open>CrossrefError\<close>, \<open>register\<close> raises, no remote
  call has succeeded, and the status has gone from NEW to REGISTERED.
\<close>

theorem register_mutates_before_confirmation:
  "status (pid (world0 NEW [Some CrossrefError])) = NEW
   \<and> fst (register scripted ''https://example.org/1'' ''doc'' (world0 NEW [Some CrossrefError]))
       = Inl CrossrefError
   \<and> status (pid (snd (register scripted ''https://example.org/1'' ''doc''
                        (world0 NEW [Some CrossrefError])))) = REGISTERED
   \<and> trace (snd (register scripted ''https://example.org/1'' ''doc''
                   (world0 NEW [Some CrossrefError]))) =
       [Local PidRegister, Remote (MetadataPost ''doc'') (Some CrossrefError),
        LogException ''Failed to register in Crossref'']"
  by (simp add: run_defs pid_defs script_defs except_CrossrefError_HttpError_def)

text \<open>
  C2, amended: \<open>update\<close> and \<open>sync_status\<close> never touch the local record before the
  remote client has answered. When \<open>update\<close> makes a local call, the metadata-post and
  the identifier-mint have both returned before it; when \<open>sync_status\<close> makes a local
  call, at least one probe has run before it and every probe before it returned or
  raised one of the three distinguished conditions; when either makes no local call the
  record is unchanged. \<open>register\<close> and \<open>delete\<close> are written the other way round: each
  makes exactly one local call (\<open>pid.register()\<close>, \<open>pid.delete()\<close>), and it precedes
  every remote call.
\<close>

theorem status_mutation_order:
  "(local_calls (new_events w (snd (update cl url doc w))) \<noteq> [] \<longrightarrow>
      remote_log (before_first_local (new_events w (snd (update cl url doc w)))) =
        [(MetadataPost doc, None), (DoiPost (pid_value (pid w)) url, None)])
   \<and> (local_calls (new_events w (snd (update cl url doc w))) = [] \<longrightarrow>
        pid (snd (update cl url doc w)) = pid w)
   \<and> (local_calls (new_events w (snd (sync_status cl w))) \<noteq> [] \<longrightarrow>
        remote_log (before_first_local (new_events w (snd (sync_status cl w)))) \<noteq> [] \<and>
        list_all (\<lambda>cr. answers (snd cr))
          (remote_log (before_first_local (new_events w (snd (sync_status cl w))))))
   \<and> (local_calls (new_events w (snd (sync_status cl w))) = [] \<longrightarrow>
        pid (snd (sync_status cl w)) = pid w)
   \<and> before_first_local (new_events w (snd (register cl url doc w))) = []
   \<and> local_calls (new_events w (snd (register cl url doc w))) = [PidRegister]
   \<and> before_first_local (new_events w (snd (delete cl w))) = []
   \<and> local_calls (new_events w (snd (delete cl w))) = [PidDelete]"
  using update_mutation [of w cl url doc] sync_status_mutation [of w cl]
    register_mutation [of w cl url doc] delete_mutation [of w cl]
  by blast

theorem status_mutation_order_witness:
  "local_calls (new_events (world0 DELETED [None, None])
      (snd (update scripted ''https://example.org/1'' ''doc'' (world0 DELETED [None, None]))))
     \<noteq> []
   \<and> remote_log (before_first_local (new_events (world0 DELETED [None, None])
        (snd (update scripted ''https://example.org/1'' ''doc'' (world0 DELETED [None, None])))))
       = [(MetadataPost ''doc'', None),
          (DoiPost (pid_value (pid (world0 DELETED [None, None]))) ''https://example.org/1'', None)]
   \<and> local_calls (new_events (world0 NEW [Some CrossrefNotFoundError, None])
        (snd (sync_status scripted (world0 NEW [Some CrossrefNotFoundError, None])))) \<noteq> []
   \<and> list_all (\<lambda>cr. answers (snd cr))
        (remote_log (before_first_local (new_events (world0 NEW [Some CrossrefNotFoundError, None])
          (snd (sync_status scripted (world0 NEW [Some CrossrefNotFoundError, None]))))))
   \<and> local_calls (new_events (world0 REGISTERED [Some HttpError])
        (snd (update scripted ''https://example.org/1'' ''doc'' (world0 REGISTERED [Some HttpError]))))
       = []
   \<and> pid (snd (update scripted ''https://example.org/1'' ''doc''
        (world0 REGISTERED [Some HttpError]))) = pid (world0 REGISTERED [Some HttpError])"
proof -
  have a: "local_calls (new_events (world0 DELETED [None, None])
      (snd (update scripted ''https://example.org/1'' ''doc'' (world0 DELETED [None, None]))))
     \<noteq> []"
    by (simp add: run_defs pid_defs script_defs)
  have b: "local_calls (new_events (world0 NEW [Some CrossrefNotFoundError, None])
        (snd (sync_status scripted (world0 NEW [Some CrossrefNotFoundError, None])))) \<noteq> []"
    by (simp add: run_defs pid_defs script_defs)
  have c: "local_calls (new_events (world0 REGISTERED [Some HttpError])
        (snd (update scripted ''https://example.org/1'' ''doc'' (world0 REGISTERED [Some HttpError]))))
       = []"
    by (simp add: run_defs pid_defs script_defs except_CrossrefError_HttpError_def)
  from a b c
    status_mutation_order [of "world0 DELETED [None, None]" scripted "''https://example.org/1''" "''doc''"]
    status_mutation_order [of "world0 NEW [Some CrossrefNotFoundError, None]" scripted
      "''https://example.org/1''" "''doc''"]
    status_mutation_order [of "world0 REGISTERED [Some HttpError]" scripted
      "''https://example.org/1''" "''doc''"]
  show ?thesis by simp
qed

subsection \<open>The default client\<close>

lemma default_client_kwargs_url:
  "default_client_kwargs (cfg(''PIDSTORE_CROSSREF_URL'' \<mapsto> u)) = default_client_kwargs cfg"
  by (simp add: default_client_kwargs_def config_get_def)

text \<open>
  C8: the docstring of \<open>__init__\<close> lists \<open>PIDSTORE_CROSSREF_URL\<close> among the variables of
  the default client, and the claim has the service URL passed to it. The code passes
  four keyword arguments and no URL: with every variable configured, the default client
  is built from the user name, the password, the prefixes and the test mode, and the
  configured URL appears nowhere in its arguments.
\<close>

theorem init_default_client_without_url:
  "api (init (\<lambda>kwargs. kwargs) config_all p None) =
     [(''username'', PyStr ''user''),
      (''password'', PyStr ''secret''),
      (''prefixes'', PyList [PyStr ''10.1234'']),
      (''test_mode'', PyBool True)]
   \<and> PyStr ''https://test.crossref.org''
       \<notin> snd ` set (api (init (\<lambda>kwargs. kwargs) config_all p None))
   \<and> api (init (\<lambda>kwargs. kwargs) Map.empty p None) =
     [(''username'', PyNone),
      (''password'', PyNone),
      (''prefixes'', PyList [PyStr ''10.5555'']),
      (''test_mode'', PyBool False)]"
  by (simp add: init_def default_client_kwargs_def config_get_def config_all_def)

end
